theory Spec2Isabelle
  imports Complex_Main "HOL-Library.Sublist" "HOL-Library.Multiset"
begin

section \<open>JavaScript values used by the stale-issue agent\<close>

text \<open>
  A \<open>Date\<close> is modelled by the integer \<open>getTime()\<close> returns: milliseconds since the
  epoch. The feed's timestamps are GraphQL \<open>DateTime\<close> scalars, so \<open>parseISO\<close> always
  yields a valid instant; the raw records below carry that instant directly.
  A \<open>string | null\<close> is a \<open>string option\<close>.
\<close>

type_synonym instant = int

text \<open>\<open>actor && ...\<close>: a \<open>string | null\<close> in a boolean position is true when it is
  neither \<open>null\<close> nor the empty string.\<close>

definition truthy :: "string option \<Rightarrow> bool" where
  "truthy s = (case s of None \<Rightarrow> False | Some v \<Rightarrow> v \<noteq> [])"

text \<open>\<open>String.prototype.endsWith\<close> and \<open>String.prototype.includes\<close>.\<close>

definition endsWith :: "string \<Rightarrow> string \<Rightarrow> bool" where
  "endsWith s suf = suffix suf s"

definition str_includes :: "string \<Rightarrow> string \<Rightarrow> bool" where
  "str_includes s sub = sublist sub s"

text \<open>\<open>x ?? []\<close> on an optional node list, and \<open>x ?? ''\<close> on an optional string.\<close>

definition nodes :: "'a list option \<Rightarrow> 'a list" where
  "nodes x = (case x of None \<Rightarrow> [] | Some ns \<Rightarrow> ns)"

definition or_empty :: "string option \<Rightarrow> string" where
  "or_empty x = (case x of None \<Rightarrow> [] | Some s \<Rightarrow> s)"

text \<open>Template literals render the issue number in decimal.\<close>

fun show_nat :: "nat \<Rightarrow> string" where
  "show_nat n =
     (if n < 10 then [char_of (48 + n)]
      else show_nat (n div 10) @ [char_of (48 + n mod 10)])"

section \<open>Constants of the agent\<close>

definition BOT_ALERT_SIGNATURE :: string where
  "BOT_ALERT_SIGNATURE = ''**Notification:** The author has updated the issue description''"

definition BOT_NAME :: string where
  "BOT_NAME = ''adk-bot''"

text \<open>The settings module reads these from the process environment.\<close>

record Settings =
  STALE_LABEL_NAME :: string
  STALE_HOURS_THRESHOLD :: real
  CLOSE_HOURS_AFTER_STALE_THRESHOLD :: real

section \<open>History events and the replayed state\<close>

text \<open>The event kinds \<open>'created'\<close>, \<open>'commented'\<close>, \<open>'edited_description'\<close>,
  \<open>'renamed_title'\<close>, \<open>'reopened'\<close> and the roles \<open>'author'\<close>, \<open>'maintainer'\<close>,
  \<open>'other_user'\<close>.\<close>

datatype event_type = Created | Commented | EditedDescription | RenamedTitle | Reopened

datatype role = Author | Maintainer | OtherUser

record HistoryEvent =
  etype :: event_type
  actor :: "string option"
  time :: instant
  data :: "string option"

record IssueState =
  last_action_role :: role
  last_activity_time :: instant
  last_action_type :: event_type
  last_comment_text :: "string option"
  last_actor_name :: "string option"

text \<open>The role determination at the head of the loop body of
  \<open>replayHistoryToFindState\<close>.\<close>

definition role_of :: "string option \<Rightarrow> string list \<Rightarrow> string \<Rightarrow> role" where
  "role_of a maintainers issueAuthor =
     (if a = Some issueAuthor then Author
      else if truthy a \<and> (case a of None \<Rightarrow> False | Some l \<Rightarrow> l \<in> set maintainers) then Maintainer
      else OtherUser)"

text \<open>One iteration of the loop: every state variable is overwritten.\<close>

definition replay_event :: "string list \<Rightarrow> string \<Rightarrow> IssueState \<Rightarrow> HistoryEvent \<Rightarrow> IssueState" where
  "replay_event maintainers issueAuthor st event =
     \<lparr> last_action_role = role_of (actor event) maintainers issueAuthor,
       last_activity_time = time event,
       last_action_type = etype event,
       last_comment_text = (if etype event = Commented then data event else None),
       last_actor_name = actor event \<rparr>"

fun replay_loop :: "string list \<Rightarrow> string \<Rightarrow> IssueState \<Rightarrow> HistoryEvent list \<Rightarrow> IssueState" where
  "replay_loop maintainers issueAuthor st [] = st"
| "replay_loop maintainers issueAuthor st (event # rest) =
     replay_loop maintainers issueAuthor (replay_event maintainers issueAuthor st event) rest"

definition replayHistoryToFindState ::
  "HistoryEvent list \<Rightarrow> string list \<Rightarrow> string \<Rightarrow> IssueState" where
  "replayHistoryToFindState history maintainers issueAuthor =
     replay_loop maintainers issueAuthor
       \<lparr> last_action_role = Author,
         last_activity_time = (case history of [] \<Rightarrow> 0 | e # _ \<Rightarrow> time e),
         last_action_type = Created,
         last_comment_text = None,
         last_actor_name = Some issueAuthor \<rparr>
       history"

section \<open>Raw issue data\<close>

text \<open>
  \<open>IssueGraphQLData\<close>. An \<open>author\<close>, \<open>editor\<close> or \<open>actor\<close> object is kept as its login
  (\<open>x?.login ?? null\<close>), a label object as its name. The fields of a comment, an edit and
  a timeline item carry the prefixes \<open>c_\<close>, \<open>e_\<close> and \<open>t_\<close>. A node of a list may be
  \<open>null\<close>.
\<close>

record RawComment =
  c_author :: "string option"
  c_body :: "string option"
  c_createdAt :: instant
  c_lastEditedAt :: "instant option"

record RawEdit =
  e_editor :: "string option"
  e_editedAt :: instant

datatype typename = LabeledEvent | RenamedTitleEvent | ReopenedEvent

record RawTimelineItem =
  t_typename :: typename
  t_createdAt :: instant
  t_actor :: "string option"
  t_label :: "string option"

record IssueGraphQLData =
  author :: "string option"
  createdAt :: instant
  comments :: "RawComment option list option"
  userContentEdits :: "RawEdit option list option"
  timelineItems :: "RawTimelineItem option list option"

text \<open>The \<open>Issue\<close> a query returns also has its label names.\<close>

record Issue = IssueGraphQLData +
  labels :: "string list option"

section \<open>Building the history timeline\<close>

text \<open>The guard \<open>actor && !actor.endsWith('[bot]') && actor !== BOT_NAME\<close> of the three
  loops.\<close>

definition human_actor :: "string option \<Rightarrow> bool" where
  "human_actor a =
     (truthy a \<and> \<not> endsWith (or_empty a) ''[bot]'' \<and> a \<noteq> Some BOT_NAME)"

text \<open>Loop 2, over the comments: the state is the history and \<open>lastBotAlertTime\<close>.\<close>

definition comment_step ::
  "HistoryEvent list \<times> instant option \<Rightarrow> RawComment option \<Rightarrow> HistoryEvent list \<times> instant option" where
  "comment_step st node =
     (case node of
        None \<Rightarrow> st
      | Some c \<Rightarrow>
          (let history = fst st; lastBotAlertTime = snd st;
               a = c_author c; cBody = or_empty (c_body c); cTime = c_createdAt c
           in if str_includes cBody BOT_ALERT_SIGNATURE then
                (history,
                 (case lastBotAlertTime of
                    None \<Rightarrow> Some cTime
                  | Some t \<Rightarrow> if cTime > t then Some cTime else Some t))
              else if human_actor a then
                (history @
                   [\<lparr> etype = Commented, actor = a,
                      time = (case c_lastEditedAt c of Some t \<Rightarrow> t | None \<Rightarrow> cTime),
                      data = Some cBody \<rparr>],
                 lastBotAlertTime)
              else st))"

text \<open>Loop 3, over the description edits.\<close>

definition edit_step :: "HistoryEvent list \<Rightarrow> RawEdit option \<Rightarrow> HistoryEvent list" where
  "edit_step history node =
     (case node of
        None \<Rightarrow> history
      | Some e \<Rightarrow>
          (let a = e_editor e
           in if human_actor a then
                history @
                  [\<lparr> etype = EditedDescription, actor = a, time = e_editedAt e, data = None \<rparr>]
              else history))"

text \<open>Loop 4, over the timeline items: the state is the history and \<open>labelEvents\<close>.\<close>

definition timeline_step ::
  "string \<Rightarrow> HistoryEvent list \<times> instant list \<Rightarrow> RawTimelineItem option \<Rightarrow>
     HistoryEvent list \<times> instant list" where
  "timeline_step stale st node =
     (case node of
        None \<Rightarrow> st
      | Some t \<Rightarrow>
          (let history = fst st; labelEvents = snd st;
               ty = t_typename t; a = t_actor t; timeVal = t_createdAt t
           in if ty = LabeledEvent then
                (if t_label t = Some stale then (history, labelEvents @ [timeVal]) else st)
              else if human_actor a then
                (history @
                   [\<lparr> etype = (if ty = RenamedTitleEvent then RenamedTitle else Reopened),
                      actor = a, time = timeVal, data = None \<rparr>],
                 labelEvents)
              else st))"

text \<open>Steps 1 to 4 of \<open>buildHistoryTimeline\<close>: the events in the order they are pushed,
  the label log and the last bot alert, before the sort.\<close>

definition created_event :: "'a IssueGraphQLData_scheme \<Rightarrow> HistoryEvent" where
  "created_event d = \<lparr> etype = Created, actor = author d, time = createdAt d, data = None \<rparr>"

definition collect ::
  "string \<Rightarrow> 'a IssueGraphQLData_scheme \<Rightarrow> HistoryEvent list \<times> instant list \<times> instant option" where
  "collect stale d =
     (let s1 = foldl comment_step ([created_event d], None) (nodes (comments d));
          h2 = foldl edit_step (fst s1) (nodes (userContentEdits d));
          s3 = foldl (timeline_step stale) (h2, []) (nodes (timelineItems d))
      in (fst s3, snd s3, snd s1))"

text \<open>\<open>Array.prototype.sort\<close> is stable; with the comparator
  \<open>a.time.getTime() - b.time.getTime()\<close> it is the stable sort by \<open>time\<close>.\<close>

definition buildHistoryTimeline ::
  "string \<Rightarrow> 'a IssueGraphQLData_scheme \<Rightarrow> HistoryEvent list \<times> instant list \<times> instant option" where
  "buildHistoryTimeline stale d =
     (case collect stale d of
        (history, labelEvents, lastBotAlertTime) \<Rightarrow>
          (sort_key time history, labelEvents, lastBotAlertTime))"

subsection \<open>What each loop contributes\<close>

text \<open>The events each raw list contributes, as lists; the lemmas on the loops show
  that the loops compute exactly these.\<close>

fun non_null :: "'a option list \<Rightarrow> 'a list" where
  "non_null [] = []"
| "non_null (None # ns) = non_null ns"
| "non_null (Some n # ns) = n # non_null ns"

definition bot_alert :: "RawComment \<Rightarrow> bool" where
  "bot_alert c = str_includes (or_empty (c_body c)) BOT_ALERT_SIGNATURE"

definition comment_event :: "RawComment \<Rightarrow> HistoryEvent" where
  "comment_event c =
     \<lparr> etype = Commented, actor = c_author c,
       time = (case c_lastEditedAt c of Some t \<Rightarrow> t | None \<Rightarrow> c_createdAt c),
       data = Some (or_empty (c_body c)) \<rparr>"

definition comment_events :: "RawComment option list \<Rightarrow> HistoryEvent list" where
  "comment_events ns =
     map comment_event
       (filter (\<lambda>c. \<not> bot_alert c \<and> human_actor (c_author c)) (non_null ns))"

definition alert_times :: "RawComment option list \<Rightarrow> instant list" where
  "alert_times ns = map c_createdAt (filter bot_alert (non_null ns))"

definition edit_events :: "RawEdit option list \<Rightarrow> HistoryEvent list" where
  "edit_events ns =
     map (\<lambda>e. \<lparr> etype = EditedDescription, actor = e_editor e, time = e_editedAt e,
                 data = None \<rparr>)
       (filter (\<lambda>e. human_actor (e_editor e)) (non_null ns))"

definition timeline_events :: "RawTimelineItem option list \<Rightarrow> HistoryEvent list" where
  "timeline_events ns =
     map (\<lambda>t. \<lparr> etype = (if t_typename t = RenamedTitleEvent then RenamedTitle else Reopened),
                 actor = t_actor t, time = t_createdAt t, data = None \<rparr>)
       (filter (\<lambda>t. t_typename t \<noteq> LabeledEvent \<and> human_actor (t_actor t)) (non_null ns))"

definition label_times :: "string \<Rightarrow> RawTimelineItem option list \<Rightarrow> instant list" where
  "label_times stale ns =
     map t_createdAt
       (filter (\<lambda>t. t_typename t = LabeledEvent \<and> t_label t = Some stale) (non_null ns))"

definition ingested :: "'a IssueGraphQLData_scheme \<Rightarrow> HistoryEvent list" where
  "ingested d =
     created_event d # comment_events (nodes (comments d)) @
       edit_events (nodes (userContentEdits d)) @ timeline_events (nodes (timelineItems d))"

definition alert_node :: "RawComment option \<Rightarrow> bool" where
  "alert_node n = (case n of None \<Rightarrow> False | Some c \<Rightarrow> bot_alert c)"

text \<open>The largest of the instants at hand, if any.\<close>

definition latest :: "instant list \<Rightarrow> instant option" where
  "latest ts = (if ts = [] then None else Some (Max (set ts)))"

section \<open>Exceptions, the maintainer cache and the query\<close>

text \<open>
  What a \<open>throw\<close> carries: a \<open>RequestException\<close> with its message, any other \<open>Error\<close>
  (an \<open>AxiosError\<close> is one) with its message, or a value that is no \<open>Error\<close>, kept as
  \<open>String(e)\<close>. A computation that may throw returns \<open>exn + 'a\<close>.
\<close>

datatype exn = RequestException string | Error string | Thrown string

record ErrorVerdict =
  status :: string
  message :: string

definition errorResponse :: "string \<Rightarrow> ErrorVerdict" where
  "errorResponse errorMessage = \<lparr> status = ''error'', message = errorMessage \<rparr>"

text \<open>
  \<open>getCachedMaintainers\<close>: the first argument is the outcome of the collaborators request
  followed by \<open>data.map((u) => u.login)\<close>, the second the module's \<open>maintainersCache\<close>;
  the new cache is returned with the result. A cached array is truthy even when empty.
\<close>

definition getCachedMaintainers ::
  "exn + string list \<Rightarrow> string list option \<Rightarrow> (exn + string list) \<times> string list option" where
  "getCachedMaintainers collaborators maintainersCache =
     (case maintainersCache of
        Some cached \<Rightarrow> (Inr cached, maintainersCache)
      | None \<Rightarrow>
          (case collaborators of
             Inr logins \<Rightarrow> (Inr logins, Some logins)
           | Inl error \<Rightarrow>
               (Inl (Error ''Maintainer verification failed. Processing aborted.''), None)))"

text \<open>\<open>GraphqlResponse\<close>: the messages of \<open>errors\<close> and the value of
  \<open>response?.data?.repository?.issue\<close>.\<close>

record GraphqlResponse =
  errors :: "string list option"
  issue :: "Issue option"

definition fetchGraphqlData :: "nat \<Rightarrow> exn + GraphqlResponse \<Rightarrow> exn + Issue" where
  "fetchGraphqlData item_number posted =
     (case posted of
        Inl e \<Rightarrow> Inl e
      | Inr response \<Rightarrow>
          (case nodes (errors response) of
             m # ms \<Rightarrow> Inl (RequestException (''GraphQL Error: '' @ m))
           | [] \<Rightarrow>
               (case issue response of
                  None \<Rightarrow>
                    Inl (RequestException (''Issue #'' @ show_nat item_number @ '' not found.''))
                | Some i \<Rightarrow> Inr i)))"

section \<open>The staleness verdict\<close>

text \<open>
  \<open>currentTime.diff(DateTime.fromJSDate(t), 'days').days\<close> is computed by the luxon
  library: \<open>fromJSDate\<close> places \<open>t\<close> in the local zone of the process and \<open>diff\<close>
  counts calendar days of that zone, so the number depends on the zone's rules. The
  evaluator takes it as the parameter \<open>diffDays\<close>, applied to the current time and to
  \<open>t\<close>.

  \<open>elapsed_days\<close> is the elapsed time in days of 86400000 milliseconds. It serves as
  \<open>diffDays\<close> in the sample runs: a process whose zone never changes its offset.
\<close>

definition elapsed_days :: "instant \<Rightarrow> instant \<Rightarrow> real" where
  "elapsed_days currentTime t = real_of_int (currentTime - t) / 86400000"

text \<open>The success object of \<open>getIssueState\<close>; the fields it copies from the replayed
  state carry the prefix \<open>v_\<close>.\<close>

record StalenessVerdict =
  v_status :: string
  v_last_action_role :: role
  v_last_action_type :: event_type
  v_last_actor_name :: "string option"
  maintainer_alert_needed :: bool
  is_stale :: bool
  days_since_activity :: real
  days_since_stale_label :: real
  v_last_comment_text :: "string option"
  current_labels :: "string list"
  stale_threshold_days :: real
  close_threshold_days :: real
  v_maintainers :: "string list"
  issue_author :: string

text \<open>The part of \<open>getIssueState\<close> after the replay: the time metrics, the stale-label
  age, the silent-edit alert and the returned object.\<close>

definition evaluate ::
  "(instant \<Rightarrow> instant \<Rightarrow> real) \<Rightarrow> Settings \<Rightarrow> string list \<Rightarrow> string \<Rightarrow>
     string list \<Rightarrow> IssueState \<Rightarrow> instant list \<Rightarrow> instant option \<Rightarrow> instant \<Rightarrow>
     StalenessVerdict" where
  "evaluate diffDays cfg maintainers issueAuthor labelsList state labelEvents lastBotAlertTime currentTime =
     (let daysSinceActivity = diffDays currentTime (last_activity_time state);
          isStale = (STALE_LABEL_NAME cfg \<in> set labelsList);
          daysSinceStaleLabel =
            (if isStale \<and> length labelEvents \<noteq> 0
             then diffDays currentTime (Max (set labelEvents)) else 0);
          maintainerAlertNeeded =
            (if last_action_role state \<in> set [Author, OtherUser] \<and>
                last_action_type state = EditedDescription
             then (if (case lastBotAlertTime of
                         None \<Rightarrow> False
                       | Some t \<Rightarrow> t > last_activity_time state)
                   then False else True)
             else False)
      in \<lparr> v_status = ''success'',
           v_last_action_role = last_action_role state,
           v_last_action_type = last_action_type state,
           v_last_actor_name = last_actor_name state,
           maintainer_alert_needed = maintainerAlertNeeded,
           is_stale = isStale,
           days_since_activity = daysSinceActivity,
           days_since_stale_label = daysSinceStaleLabel,
           v_last_comment_text = last_comment_text state,
           current_labels = labelsList,
           stale_threshold_days = STALE_HOURS_THRESHOLD cfg / 24,
           close_threshold_days = CLOSE_HOURS_AFTER_STALE_THRESHOLD cfg / 24,
           v_maintainers = maintainers,
           issue_author = issueAuthor \<rparr>)"

text \<open>From the raw issue to the verdict: the body of the \<open>try\<close> block once both fetches
  have succeeded.\<close>

definition analyse ::
  "(instant \<Rightarrow> instant \<Rightarrow> real) \<Rightarrow> Settings \<Rightarrow> string list \<Rightarrow> Issue \<Rightarrow> instant \<Rightarrow>
     StalenessVerdict" where
  "analyse diffDays cfg maintainers rawData currentTime =
     (let issueAuthor = (case author rawData of None \<Rightarrow> ''unknown'' | Some l \<Rightarrow> l);
          labelsList = nodes (labels rawData)
      in case buildHistoryTimeline (STALE_LABEL_NAME cfg) rawData of
           (history, labelEvents, lastBotAlertTime) \<Rightarrow>
             evaluate diffDays cfg maintainers issueAuthor labelsList
               (replayHistoryToFindState history maintainers issueAuthor)
               labelEvents lastBotAlertTime currentTime)"

text \<open>
  The \<open>try\<close> block of \<open>getIssueState\<close>. Its inputs beyond the issue number are
  luxon's difference in days, the settings, the outcomes of the two requests, the clock
  and the maintainer cache; it returns what the block yields or throws, with the cache
  as the block left it.
\<close>

definition getIssueState_try ::
  "(instant \<Rightarrow> instant \<Rightarrow> real) \<Rightarrow> Settings \<Rightarrow> nat \<Rightarrow> exn + string list \<Rightarrow>
     exn + GraphqlResponse \<Rightarrow> instant \<Rightarrow> string list option \<Rightarrow>
     (exn + StalenessVerdict) \<times> string list option" where
  "getIssueState_try diffDays cfg item_number collaborators posted currentTime maintainersCache =
     (case getCachedMaintainers collaborators maintainersCache of
        (Inl e, cache) \<Rightarrow> (Inl e, cache)
      | (Inr maintainers, cache) \<Rightarrow>
          (case fetchGraphqlData item_number posted of
             Inl e \<Rightarrow> (Inl e, cache)
           | Inr rawData \<Rightarrow> (Inr (analyse diffDays cfg maintainers rawData currentTime), cache)))"

text \<open>The \<open>catch\<close> block: \<open>e.message\<close> of an \<open>Error\<close>, \<open>String(e)\<close> otherwise.\<close>

definition getIssueState_catch :: "exn \<Rightarrow> ErrorVerdict" where
  "getIssueState_catch e =
     (case e of
        RequestException m \<Rightarrow> errorResponse (''Network Error: '' @ m)
      | Error m \<Rightarrow> errorResponse (''Analysis Error: '' @ m)
      | Thrown s \<Rightarrow> errorResponse (''Analysis Error: '' @ s))"

text \<open>What the tool hands back: a verdict or an error object. \<open>Inl\<close> would be an
  exception leaving \<open>getIssueState\<close>.\<close>

datatype response = Success StalenessVerdict | Failure ErrorVerdict

definition getIssueState ::
  "(instant \<Rightarrow> instant \<Rightarrow> real) \<Rightarrow> Settings \<Rightarrow> nat \<Rightarrow> exn + string list \<Rightarrow>
     exn + GraphqlResponse \<Rightarrow> instant \<Rightarrow> string list option \<Rightarrow>
     (exn + response) \<times> string list option" where
  "getIssueState diffDays cfg item_number collaborators posted currentTime maintainersCache =
     (case getIssueState_try diffDays cfg item_number collaborators posted currentTime maintainersCache of
        (Inr verdict, cache) \<Rightarrow> (Inr (Success verdict), cache)
      | (Inl e, cache) \<Rightarrow> (Inr (Failure (getIssueState_catch e)), cache))"

section \<open>A sample issue\<close>

text \<open>
  An issue opened by \<open>alice\<close>. \<open>bob\<close> comments and later edits his comment; the feed has a
  gap; the automation posts an alert; a dependency bot comments; \<open>carol\<close> comments with
  no body; \<open>bob\<close> quotes the alert text. \<open>alice\<close> then edits the description, the stale
  label is applied and \<open>alice\<close> renames the issue at the instant of \<open>bob\<close>'s edit.
\<close>

definition sample_issue :: Issue where
  "sample_issue =
     \<lparr> author = Some ''alice'', createdAt = 1000,
       comments = Some
         [Some \<lparr> c_author = Some ''bob'', c_body = Some ''Can you share the logs?'',
                 c_createdAt = 2000, c_lastEditedAt = Some 2500 \<rparr>,
          None,
          Some \<lparr> c_author = Some ''adk-bot'',
                 c_body = Some (''Hi. '' @ BOT_ALERT_SIGNATURE @ ''.''),
                 c_createdAt = 4000, c_lastEditedAt = None \<rparr>,
          Some \<lparr> c_author = Some ''dependabot[bot]'', c_body = Some ''bump'',
                 c_createdAt = 2600, c_lastEditedAt = None \<rparr>,
          Some \<lparr> c_author = Some ''carol'', c_body = None,
                 c_createdAt = 2200, c_lastEditedAt = None \<rparr>,
          Some \<lparr> c_author = Some ''bob'',
                 c_body = Some BOT_ALERT_SIGNATURE,
                 c_createdAt = 3200, c_lastEditedAt = Some 9000 \<rparr>],
       userContentEdits = Some [Some \<lparr> e_editor = Some ''alice'', e_editedAt = 3000 \<rparr>],
       timelineItems = Some
         [Some \<lparr> t_typename = LabeledEvent, t_createdAt = 3500, t_actor = Some ''adk-bot'',
                 t_label = Some ''stale'' \<rparr>,
          Some \<lparr> t_typename = RenamedTitleEvent, t_createdAt = 2500, t_actor = Some ''alice'',
                 t_label = None \<rparr>],
       labels = Some [''stale'', ''bug''] \<rparr>"

text \<open>Settings with the stale label named \<open>stale\<close> and the default thresholds of 168
  hours.\<close>

definition sample_settings :: Settings where
  "sample_settings =
     \<lparr> STALE_LABEL_NAME = ''stale'', STALE_HOURS_THRESHOLD = 168,
       CLOSE_HOURS_AFTER_STALE_THRESHOLD = 168 \<rparr>"

section \<open>Lemmas on the replay loop\<close>

lemma replay_loop_snoc:
  "replay_loop m a st (xs @ [e]) = replay_event m a (replay_loop m a st xs) e"
  by (induction xs arbitrary: st) simp_all

lemma replay_loop_last:
  "h \<noteq> [] \<Longrightarrow> replay_loop m a st h = replay_event m a st (last h)"
proof (induction h arbitrary: st)
  case Nil
  then show ?case by simp
next
  case (Cons e es)
  show ?case
  proof (cases es)
    case Nil
    then show ?thesis by simp
  next
    case (Cons x xs)
    then have "replay_loop m a (replay_event m a st e) es =
               replay_event m a (replay_event m a st e) (last es)"
      using Cons.IH by simp
    then show ?thesis using Cons by (simp add: replay_event_def)
  qed
qed

lemma sorted_le_last:
  fixes xs :: "int list"
  shows "sorted xs \<Longrightarrow> x \<in> set xs \<Longrightarrow> x \<le> last xs"
  by (induction xs) auto

lemma sorted_last_Max:
  fixes xs :: "int list"
  assumes "xs \<noteq> []" "sorted xs"
  shows "last xs = Max (set xs)"
proof -
  have "\<And>x. x \<in> set xs \<Longrightarrow> x \<le> last xs"
    using assms by (simp add: sorted_le_last)
  moreover have "last xs \<in> set xs" using assms by simp
  ultimately have "Max (set xs) = last xs"
    by (intro Max_eqI) auto
  then show ?thesis by simp
qed

section \<open>The History Replayer\<close>

text \<open>
  C1, as the code has it. For a non-empty timeline in chronological order, the replayed
  \<open>last_activity_time\<close> is the timestamp of the last event, which is the largest
  timestamp of the timeline, and \<open>last_comment_text\<close> is the payload of the last event
  when its kind is \<open>Commented\<close> and \<open>null\<close> otherwise. So the text is non-null exactly
  when the last event is a comment that carries a payload.
\<close>

theorem replay_reflects_last_event:
  assumes "history \<noteq> []" and "sorted (map time history)"
  shows "last_activity_time (replayHistoryToFindState history maintainers issueAuthor) =
           time (last history)
       \<and> last_activity_time (replayHistoryToFindState history maintainers issueAuthor) =
           Max (set (map time history))
       \<and> last_comment_text (replayHistoryToFindState history maintainers issueAuthor) =
           (if etype (last history) = Commented then data (last history) else None)
       \<and> (last_comment_text (replayHistoryToFindState history maintainers issueAuthor) \<noteq> None
            \<longleftrightarrow> etype (last history) = Commented \<and> data (last history) \<noteq> None)"
proof -
  let ?S = "replayHistoryToFindState history maintainers issueAuthor"
  have S: "?S = replay_event maintainers issueAuthor
      \<lparr> last_action_role = Author,
         last_activity_time = (case history of [] \<Rightarrow> 0 | e # _ \<Rightarrow> time e),
         last_action_type = Created,
         last_comment_text = None,
         last_actor_name = Some issueAuthor \<rparr> (last history)"
    unfolding replayHistoryToFindState_def using assms(1) by (rule replay_loop_last)
  have t: "last_activity_time ?S = time (last history)"
    by (simp add: S replay_event_def)
  have "last (map time history) = Max (set (map time history))"
    using assms by (intro sorted_last_Max) simp_all
  then have m: "time (last history) = Max (set (map time history))"
    using assms(1) by (simp add: last_map)
  have c: "last_comment_text ?S =
           (if etype (last history) = Commented then data (last history) else None)"
    by (simp add: S replay_event_def)
  show ?thesis using t m c by simp
qed

theorem replay_reflects_last_event_witness:
  "last_activity_time (replayHistoryToFindState
      [\<lparr> etype = Created, actor = Some ''alice'', time = 10, data = None \<rparr>,
       \<lparr> etype = Commented, actor = Some ''bob'', time = 20, data = Some ''more detail?'' \<rparr>]
      [''bob''] ''alice'') = 20
   \<and> last_comment_text (replayHistoryToFindState
      [\<lparr> etype = Created, actor = Some ''alice'', time = 10, data = None \<rparr>,
       \<lparr> etype = Commented, actor = Some ''bob'', time = 20, data = Some ''more detail?'' \<rparr>]
      [''bob''] ''alice'') = Some ''more detail?''"
  using replay_reflects_last_event
    [of "[\<lparr> etype = Created, actor = Some ''alice'', time = 10, data = None \<rparr>,
          \<lparr> etype = Commented, actor = Some ''bob'', time = 20, data = Some ''more detail?'' \<rparr>]"
        "[''bob'']" "''alice''"]
  by simp

text \<open>
  C1 as stated fails: the timeline below is in chronological order and its last event is
  of kind \<open>Commented\<close>, yet the replayed \<open>last_comment_text\<close> is \<open>null\<close>, because that
  event has no payload (\<open>event.data ?? null\<close>).
\<close>

theorem commented_without_payload_counterexample:
  "etype (last [\<lparr> etype = Created, actor = Some ''alice'', time = 10, data = None \<rparr>,
                \<lparr> etype = Commented, actor = Some ''bob'', time = 20, data = None \<rparr>]) = Commented
   \<and> sorted (map time [\<lparr> etype = Created, actor = Some ''alice'', time = 10, data = None \<rparr>,
                \<lparr> etype = Commented, actor = Some ''bob'', time = 20, data = None \<rparr>])
   \<and> last_comment_text (replayHistoryToFindState
        [\<lparr> etype = Created, actor = Some ''alice'', time = 10, data = None \<rparr>,
         \<lparr> etype = Commented, actor = Some ''bob'', time = 20, data = None \<rparr>]
        [''bob''] ''alice'') = None"
  by (simp add: replayHistoryToFindState_def replay_event_def)

section \<open>The loops of the timeline builder\<close>

lemma comment_events_simps:
  "comment_events [] = []"
  "comment_events (None # ns) = comment_events ns"
  "comment_events (Some c # ns) =
     (if \<not> bot_alert c \<and> human_actor (c_author c) then comment_event c # comment_events ns
      else comment_events ns)"
  by (simp_all add: comment_events_def)

lemma alert_times_simps:
  "alert_times [] = []"
  "alert_times (None # ns) = alert_times ns"
  "alert_times (Some c # ns) =
     (if bot_alert c then c_createdAt c # alert_times ns else alert_times ns)"
  by (simp_all add: alert_times_def)

lemma edit_events_simps:
  "edit_events [] = []"
  "edit_events (None # ns) = edit_events ns"
  "edit_events (Some e # ns) =
     (if human_actor (e_editor e)
      then \<lparr> etype = EditedDescription, actor = e_editor e, time = e_editedAt e, data = None \<rparr>
             # edit_events ns
      else edit_events ns)"
  by (simp_all add: edit_events_def)

lemma timeline_events_simps:
  "timeline_events [] = []"
  "timeline_events (None # ns) = timeline_events ns"
  "timeline_events (Some t # ns) =
     (if t_typename t \<noteq> LabeledEvent \<and> human_actor (t_actor t)
      then \<lparr> etype = (if t_typename t = RenamedTitleEvent then RenamedTitle else Reopened),
             actor = t_actor t, time = t_createdAt t, data = None \<rparr> # timeline_events ns
      else timeline_events ns)"
  by (simp_all add: timeline_events_def)

lemma label_times_simps:
  "label_times stale [] = []"
  "label_times stale (None # ns) = label_times stale ns"
  "label_times stale (Some t # ns) =
     (if t_typename t = LabeledEvent \<and> t_label t = Some stale
      then t_createdAt t # label_times stale ns else label_times stale ns)"
  by (simp_all add: label_times_def)

lemma comment_step_simps:
  "comment_step st None = st"
  "comment_step (h, a) (Some c) =
     (if bot_alert c then
        (h, case a of None \<Rightarrow> Some (c_createdAt c)
            | Some t \<Rightarrow> Some (max t (c_createdAt c)))
      else if human_actor (c_author c) then (h @ [comment_event c], a)
      else (h, a))"
  by (auto simp: comment_step_def bot_alert_def comment_event_def Let_def max_def
      split: option.splits)

lemma edit_step_simps:
  "edit_step h None = h"
  "edit_step h (Some e) =
     (if human_actor (e_editor e)
      then h @ [\<lparr> etype = EditedDescription, actor = e_editor e, time = e_editedAt e,
                  data = None \<rparr>]
      else h)"
  by (simp_all add: edit_step_def Let_def)

lemma timeline_step_simps:
  "timeline_step stale st None = st"
  "timeline_step stale (h, ls) (Some t) =
     (if t_typename t = LabeledEvent then
        (if t_label t = Some stale then (h, ls @ [t_createdAt t]) else (h, ls))
      else if human_actor (t_actor t) then
        (h @ [\<lparr> etype = (if t_typename t = RenamedTitleEvent then RenamedTitle else Reopened),
                 actor = t_actor t, time = t_createdAt t, data = None \<rparr>], ls)
      else (h, ls))"
  by (simp_all add: timeline_step_def Let_def)

lemma latest_Cons_Cons: "latest (t # x # ts) = latest (max t x # ts)"
proof -
  have "Max (set (t # x # ts)) = fold max (x # ts) t"
    by (rule Max.set_eq_fold)
  also have "\<dots> = fold max ts (max t x)"
    by (simp add: max.commute)
  also have "\<dots> = Max (set (max t x # ts))"
    by (rule Max.set_eq_fold [symmetric])
  finally show ?thesis by (simp add: latest_def)
qed

lemma foldl_comment_step:
  "foldl comment_step (h, a) ns =
     (h @ comment_events ns,
      latest ((case a of None \<Rightarrow> [] | Some t \<Rightarrow> [t]) @ alert_times ns))"
proof (induction ns arbitrary: h a)
  case Nil
  show ?case by (cases a) (simp_all add: comment_events_simps alert_times_simps latest_def)
next
  case (Cons n ns)
  show ?case
  proof (cases n)
    case None
    then show ?thesis
      by (simp add: Cons.IH comment_step_simps comment_events_simps alert_times_simps)
  next
    case (Some c)
    show ?thesis
    proof (cases "bot_alert c")
      case True
      show ?thesis
      proof (cases a)
        case None
        then show ?thesis
          using True Some
          by (simp add: Cons.IH comment_step_simps comment_events_simps alert_times_simps)
      next
        case (Some t)
        have "latest (t # c_createdAt c # alert_times ns) =
              latest (max t (c_createdAt c) # alert_times ns)"
          by (rule latest_Cons_Cons)
        then show ?thesis
          using True \<open>n = Some c\<close> Some
          by (simp add: Cons.IH comment_step_simps comment_events_simps alert_times_simps)
      qed
    next
      case False
      then show ?thesis
        using Some
        by (simp add: Cons.IH comment_step_simps comment_events_simps alert_times_simps)
    qed
  qed
qed

lemma foldl_edit_step: "foldl edit_step h ns = h @ edit_events ns"
proof (induction ns arbitrary: h)
  case Nil
  show ?case by (simp add: edit_events_simps)
next
  case (Cons n ns)
  show ?case
    by (cases n) (simp_all add: Cons.IH edit_step_simps edit_events_simps)
qed

lemma foldl_timeline_step:
  "foldl (timeline_step stale) (h, ls) ns =
     (h @ timeline_events ns, ls @ label_times stale ns)"
proof (induction ns arbitrary: h ls)
  case Nil
  show ?case by (simp add: timeline_events_simps label_times_simps)
next
  case (Cons n ns)
  show ?case
    by (cases n)
      (simp_all add: Cons.IH timeline_step_simps timeline_events_simps label_times_simps)
qed

lemma collect_eq:
  "collect stale d =
     (ingested d, label_times stale (nodes (timelineItems d)),
      latest (alert_times (nodes (comments d))))"
  by (simp add: collect_def Let_def foldl_comment_step foldl_edit_step foldl_timeline_step
      ingested_def)

lemma buildHistoryTimeline_eq:
  "buildHistoryTimeline stale d =
     (sort_key time (ingested d), label_times stale (nodes (timelineItems d)),
      latest (alert_times (nodes (comments d))))"
  by (simp add: buildHistoryTimeline_def collect_eq)

lemma set_non_null: "set (non_null ns) = {n. Some n \<in> set ns}"
proof (induction ns)
  case Nil
  show ?case by simp
next
  case (Cons n ns)
  then show ?case by (cases n) auto
qed

lemma in_comment_events:
  "e \<in> set (comment_events ns) \<longleftrightarrow>
     (\<exists>c. Some c \<in> set ns \<and> \<not> bot_alert c \<and> human_actor (c_author c) \<and> e = comment_event c)"
  by (auto simp: comment_events_def set_non_null)

lemma in_edit_events:
  "e \<in> set (edit_events ns) \<Longrightarrow> etype e = EditedDescription \<and> human_actor (actor e)"
  by (auto simp: edit_events_def)

lemma in_timeline_events:
  "e \<in> set (timeline_events ns) \<Longrightarrow>
     (etype e = RenamedTitle \<or> etype e = Reopened) \<and> human_actor (actor e)"
  by (auto simp: timeline_events_def split: if_splits)

lemma set_history:
  "set (fst (buildHistoryTimeline stale d)) =
     insert (created_event d)
       (set (comment_events (nodes (comments d))) \<union>
        set (edit_events (nodes (userContentEdits d))) \<union>
        set (timeline_events (nodes (timelineItems d))))"
proof -
  have "set (fst (buildHistoryTimeline stale d)) = set (ingested d)"
    by (simp add: buildHistoryTimeline_eq)
  then show ?thesis by (simp add: ingested_def Un_assoc)
qed

lemma human_actorD:
  "human_actor x \<Longrightarrow> \<exists>a. x = Some a \<and> a \<noteq> [] \<and> a \<noteq> BOT_NAME \<and> \<not> endsWith a ''[bot]''"
  by (cases x) (auto simp: human_actor_def truthy_def or_empty_def)

lemma human_actorI:
  "a \<noteq> [] \<Longrightarrow> a \<noteq> BOT_NAME \<Longrightarrow> \<not> endsWith a ''[bot]'' \<Longrightarrow> human_actor (Some a)"
  by (simp add: human_actor_def truthy_def or_empty_def)

lemma non_created_human:
  assumes "e \<in> set (fst (buildHistoryTimeline stale d))" and "e \<noteq> created_event d"
  shows "etype e \<noteq> Created \<and> human_actor (actor e)"
proof -
  consider "e \<in> set (comment_events (nodes (comments d)))"
    | "e \<in> set (edit_events (nodes (userContentEdits d)))"
    | "e \<in> set (timeline_events (nodes (timelineItems d)))"
    using assms by (auto simp: set_history)
  then show ?thesis
  proof cases
    case 1
    then show ?thesis by (auto simp: in_comment_events comment_event_def)
  next
    case 2
    then show ?thesis using in_edit_events by fastforce
  next
    case 3
    then show ?thesis using in_timeline_events by fastforce
  qed
qed

lemma created_only_once:
  "filter (\<lambda>e. etype e = Created) (ingested d) = [created_event d]"
proof -
  have "filter (\<lambda>e. etype e = Created) (comment_events (nodes (comments d))) = []"
    by (auto simp: filter_empty_conv in_comment_events comment_event_def)
  moreover have "filter (\<lambda>e. etype e = Created) (edit_events (nodes (userContentEdits d))) = []"
    using in_edit_events by (fastforce simp: filter_empty_conv)
  moreover have "filter (\<lambda>e. etype e = Created) (timeline_events (nodes (timelineItems d))) = []"
    using in_timeline_events by (fastforce simp: filter_empty_conv)
  ultimately show ?thesis by (simp add: ingested_def created_event_def)
qed

lemma sample_timeline:
  "buildHistoryTimeline ''stale'' sample_issue =
     ([\<lparr> etype = Created, actor = Some ''alice'', time = 1000, data = None \<rparr>,
       \<lparr> etype = Commented, actor = Some ''carol'', time = 2200, data = Some '''' \<rparr>,
       \<lparr> etype = Commented, actor = Some ''bob'', time = 2500,
          data = Some ''Can you share the logs?'' \<rparr>,
       \<lparr> etype = RenamedTitle, actor = Some ''alice'', time = 2500, data = None \<rparr>,
       \<lparr> etype = EditedDescription, actor = Some ''alice'', time = 3000, data = None \<rparr>],
      [3500], Some 4000)"
  by code_simp

lemma sample_created:
  "created_event sample_issue =
     \<lparr> etype = Created, actor = Some ''alice'', time = 1000, data = None \<rparr>"
  by (simp add: created_event_def sample_issue_def)

lemma comment_events_without_alerts:
  "comment_events (filter (\<lambda>n. \<not> alert_node n) ns) = comment_events ns"
proof (induction ns)
  case Nil
  show ?case by simp
next
  case (Cons n ns)
  then show ?case
    by (cases n) (simp_all add: alert_node_def comment_events_simps)
qed

lemma set_alert_times:
  "set (alert_times ns) = {c_createdAt c |c. Some c \<in> set ns \<and> bot_alert c}"
  by (auto simp: alert_times_def set_non_null)

lemma latest_alert_times:
  "latest (alert_times ns) =
     (if \<exists>c. Some c \<in> set ns \<and> bot_alert c
      then Some (Max {c_createdAt c |c. Some c \<in> set ns \<and> bot_alert c}) else None)"
proof -
  have "alert_times ns = [] \<longleftrightarrow> \<not> (\<exists>c. Some c \<in> set ns \<and> bot_alert c)"
    by (auto simp: alert_times_def filter_empty_conv set_non_null)
  then show ?thesis by (simp add: latest_def set_alert_times)
qed

section \<open>The Event Normalizer and the Timeline Builder\<close>

text \<open>
  C5. For every raw input the history has at least one event, holds the \<open>Created\<close> event
  of the issue (of kind \<open>Created\<close>, by the issue's author, at the issue's creation
  instant, without payload), and has non-decreasing timestamps. It is the stable sort by timestamp of
  the list the loops collected, so it has the same events and, among events of one
  timestamp, the order of collection: the \<open>Created\<close> event first, then the comments, the
  edits and the timeline items. The \<open>Created\<close> event goes through the sort like the rest.
\<close>

theorem timeline_nonempty_sorted_stable:
  "1 \<le> length (fst (buildHistoryTimeline stale d))
   \<and> created_event d \<in> set (fst (buildHistoryTimeline stale d))
   \<and> sorted (map time (fst (buildHistoryTimeline stale d)))
   \<and> fst (buildHistoryTimeline stale d) = sort_key time (fst (collect stale d))
   \<and> mset (fst (buildHistoryTimeline stale d)) = mset (fst (collect stale d))
   \<and> (\<forall>t. filter (\<lambda>e. time e = t) (fst (buildHistoryTimeline stale d)) =
            filter (\<lambda>e. time e = t) (fst (collect stale d)))
   \<and> fst (collect stale d) =
       created_event d # comment_events (nodes (comments d)) @
         edit_events (nodes (userContentEdits d)) @ timeline_events (nodes (timelineItems d))
   \<and> created_event d =
       \<lparr> etype = Created, actor = author d, time = createdAt d, data = None \<rparr>
   \<and> \<lparr> etype = Created, actor = author d, time = createdAt d, data = None \<rparr>
       \<in> set (fst (buildHistoryTimeline stale d))"
proof -
  have b: "fst (buildHistoryTimeline stale d) = sort_key time (fst (collect stale d))"
    by (simp add: buildHistoryTimeline_def split: prod.splits)
  have c: "fst (collect stale d) =
       created_event d # comment_events (nodes (comments d)) @
         edit_events (nodes (userContentEdits d)) @ timeline_events (nodes (timelineItems d))"
    by (simp add: collect_eq ingested_def)
  have len: "1 \<le> length (fst (buildHistoryTimeline stale d))"
    unfolding b by (simp add: c)
  have "created_event d \<in> set (fst (collect stale d))"
    by (simp add: c)
  then have mem: "created_event d \<in> set (fst (buildHistoryTimeline stale d))"
    unfolding b by simp
  have srt: "sorted (map time (fst (buildHistoryTimeline stale d)))"
    by (simp add: b)
  have ms: "mset (fst (buildHistoryTimeline stale d)) = mset (fst (collect stale d))"
    by (simp add: b)
  have st: "\<forall>t. filter (\<lambda>e. time e = t) (fst (buildHistoryTimeline stale d)) =
            filter (\<lambda>e. time e = t) (fst (collect stale d))"
    by (simp add: b sort_key_stable)
  have cr: "created_event d =
       \<lparr> etype = Created, actor = author d, time = createdAt d, data = None \<rparr>"
    by (simp add: created_event_def)
  have mem2: "\<lparr> etype = Created, actor = author d, time = createdAt d, data = None \<rparr>
       \<in> set (fst (buildHistoryTimeline stale d))"
    using mem by (simp only: cr)
  show ?thesis using len mem srt b ms st c cr mem2 by blast
qed

text \<open>
  C10. In every history, an event whose kind is not \<open>Created\<close> has an actor that is
  present, is not the automation's own login and does not end with \<open>[bot]\<close>; an event
  without actor can only be the \<open>Created\<close> event; and the history has exactly one event
  of kind \<open>Created\<close>, the one pushed first.
\<close>

theorem only_created_may_lack_actor:
  "(\<forall>e \<in> set (fst (buildHistoryTimeline stale d)).
      etype e \<noteq> Created \<longrightarrow>
        (\<exists>a. actor e = Some a \<and> a \<noteq> [] \<and> a \<noteq> BOT_NAME \<and> \<not> endsWith a ''[bot]''))
   \<and> (\<forall>e \<in> set (fst (buildHistoryTimeline stale d)). actor e = None \<longrightarrow> e = created_event d)
   \<and> filter (\<lambda>e. etype e = Created) (fst (buildHistoryTimeline stale d)) = [created_event d]"
proof -
  let ?h = "fst (buildHistoryTimeline stale d)"
  have nc: "\<And>e. e \<in> set ?h \<Longrightarrow> e \<noteq> created_event d \<Longrightarrow>
                etype e \<noteq> Created \<and> human_actor (actor e)"
    by (rule non_created_human)
  have cr: "etype (created_event d) = Created" by (simp add: created_event_def)
  have 1: "\<forall>e \<in> set ?h. etype e \<noteq> Created \<longrightarrow>
        (\<exists>a. actor e = Some a \<and> a \<noteq> [] \<and> a \<noteq> BOT_NAME \<and> \<not> endsWith a ''[bot]'')"
    using nc cr human_actorD by metis
  have 2: "\<forall>e \<in> set ?h. actor e = None \<longrightarrow> e = created_event d"
  proof (intro ballI impI)
    fix e assume "e \<in> set ?h" "actor e = None"
    then show "e = created_event d"
      using nc [of e] human_actorD [of "actor e"] by auto
  qed
  have "filter (\<lambda>e. etype e = Created) ?h =
        sort_key time (filter (\<lambda>e. etype e = Created) (ingested d))"
    by (simp add: buildHistoryTimeline_eq filter_sort)
  then have 3: "filter (\<lambda>e. etype e = Created) ?h = [created_event d]"
    by (simp add: created_only_once)
  show ?thesis using 1 2 3 by blast
qed

text \<open>C10 on the sample issue: the rename by \<open>alice\<close> is in the history and the only
  \<open>Created\<close> event is the one of the issue.\<close>

theorem only_created_may_lack_actor_witness:
  "\<lparr> etype = RenamedTitle, actor = Some ''alice'', time = 2500, data = None \<rparr>
      \<in> set (fst (buildHistoryTimeline ''stale'' sample_issue))
   \<and> (\<exists>a. Some ''alice'' = Some a \<and> a \<noteq> [] \<and> a \<noteq> BOT_NAME \<and> \<not> endsWith a ''[bot]'')
   \<and> filter (\<lambda>e. etype e = Created) (fst (buildHistoryTimeline ''stale'' sample_issue)) =
       [\<lparr> etype = Created, actor = Some ''alice'', time = 1000, data = None \<rparr>]"
  using only_created_may_lack_actor [of "''stale''" sample_issue]
  by (simp add: sample_timeline sample_created)

subsection \<open>Roles of the events of a built timeline\<close>

text \<open>
  C6. Every event the replayer processes gets exactly one role, a function of its actor.
  On the timeline of any raw issue, replayed as \<open>getIssueState\<close> does (the issue author
  being the author's login, or \<open>unknown\<close>), the event at every position leaves the role
  \<open>Author\<close> when its actor equals the issue author, else \<open>Maintainer\<close> when its actor is in
  the maintainer list, else \<open>OtherUser\<close>, which covers the absent actor. On any event
  list at all the same holds with the code's test of presence, \<open>actor && ...\<close>: an actor
  that is \<open>null\<close> or the empty login is absent and falls to \<open>OtherUser\<close>.
\<close>

theorem replay_role_classification:
  fixes d :: "'a IssueGraphQLData_scheme"
  assumes "history = fst (buildHistoryTimeline stale d)"
    and "issueAuthor = (case author d of None \<Rightarrow> ''unknown'' | Some l \<Rightarrow> l)"
    and "i < length history"
  shows "last_action_role
           (replayHistoryToFindState (take (Suc i) history) maintainers issueAuthor) =
           (if actor (history ! i) = Some issueAuthor then Author
            else if (\<exists>l. actor (history ! i) = Some l \<and> l \<in> set maintainers) then Maintainer
            else OtherUser)
       \<and> last_action_role (replayHistoryToFindState (xs @ [e]) maintainers' issueAuthor') =
           (if actor e = Some issueAuthor' then Author
            else if (\<exists>l. actor e = Some l \<and> l \<noteq> [] \<and> l \<in> set maintainers') then Maintainer
            else OtherUser)"
proof -
  have gen: "\<And>ys b m au. last_action_role (replayHistoryToFindState (ys @ [b]) m au) =
           (if actor b = Some au then Author
            else if (\<exists>l. actor b = Some l \<and> l \<noteq> [] \<and> l \<in> set m) then Maintainer
            else OtherUser)"
  proof -
    fix ys b m au
    have "last_action_role (replayHistoryToFindState (ys @ [b]) m au) = role_of (actor b) m au"
      by (simp add: replayHistoryToFindState_def replay_loop_snoc replay_event_def)
    also have "\<dots> = (if actor b = Some au then Author
            else if (\<exists>l. actor b = Some l \<and> l \<noteq> [] \<and> l \<in> set m) then Maintainer
            else OtherUser)"
      by (cases "actor b") (auto simp: role_of_def truthy_def)
    finally show "last_action_role (replayHistoryToFindState (ys @ [b]) m au) =
           (if actor b = Some au then Author
            else if (\<exists>l. actor b = Some l \<and> l \<noteq> [] \<and> l \<in> set m) then Maintainer
            else OtherUser)" .
  qed
  let ?b = "history ! i"
  have mem: "?b \<in> set (fst (buildHistoryTimeline stale d))"
    using assms(1,3) by simp
  have empty_is_author: "actor ?b = Some [] \<Longrightarrow> actor ?b = Some issueAuthor"
  proof -
    assume a: "actor ?b = Some []"
    have "?b = created_event d"
    proof (rule ccontr)
      assume "?b \<noteq> created_event d"
      then have "human_actor (actor ?b)"
        using mem non_created_human by blast
      then show False
        using a by (simp add: human_actor_def truthy_def)
    qed
    then have "author d = Some []"
      using a by (simp add: created_event_def)
    then show "actor ?b = Some issueAuthor"
      using a assms(2) by simp
  qed
  have tk: "take (Suc i) history = take i history @ [?b]"
    using assms(3) by (simp add: take_Suc_conv_app_nth)
  have "last_action_role
           (replayHistoryToFindState (take (Suc i) history) maintainers issueAuthor) =
           (if actor ?b = Some issueAuthor then Author
            else if (\<exists>l. actor ?b = Some l \<and> l \<noteq> [] \<and> l \<in> set maintainers) then Maintainer
            else OtherUser)"
    unfolding tk by (rule gen)
  also have "\<dots> = (if actor ?b = Some issueAuthor then Author
            else if (\<exists>l. actor ?b = Some l \<and> l \<in> set maintainers) then Maintainer
            else OtherUser)"
  proof (cases "actor ?b = Some []")
    case True
    then show ?thesis using empty_is_author by simp
  next
    case False
    then have "(\<exists>l. actor ?b = Some l \<and> l \<noteq> [] \<and> l \<in> set maintainers) \<longleftrightarrow>
               (\<exists>l. actor ?b = Some l \<and> l \<in> set maintainers)"
      by auto
    then show ?thesis by (simp only:)
  qed
  finally have first: "last_action_role
           (replayHistoryToFindState (take (Suc i) history) maintainers issueAuthor) =
           (if actor ?b = Some issueAuthor then Author
            else if (\<exists>l. actor ?b = Some l \<and> l \<in> set maintainers) then Maintainer
            else OtherUser)" .
  show ?thesis by (rule conjI [OF first gen])
qed

text \<open>C6 on the sample issue with \<open>bob\<close> as the only maintainer: the creation is the
  author's, the comment of \<open>carol\<close> another user's and the comment of \<open>bob\<close> a
  maintainer's.\<close>

theorem replay_role_classification_witness:
  "last_action_role
     (replayHistoryToFindState (take 3 (fst (buildHistoryTimeline ''stale'' sample_issue)))
        [''bob''] ''alice'') = Maintainer
   \<and> actor (fst (buildHistoryTimeline ''stale'' sample_issue) ! 2) = Some ''bob''
   \<and> last_action_role
     (replayHistoryToFindState (take 2 (fst (buildHistoryTimeline ''stale'' sample_issue)))
        [''bob''] ''alice'') = OtherUser
   \<and> actor (fst (buildHistoryTimeline ''stale'' sample_issue) ! 1) = Some ''carol''"
proof -
  have a: "''alice'' = (case author sample_issue of None \<Rightarrow> ''unknown'' | Some l \<Rightarrow> l)"
    by (simp add: sample_issue_def)
  have n2: "2 < length (fst (buildHistoryTimeline ''stale'' sample_issue))"
    and n1: "1 < length (fst (buildHistoryTimeline ''stale'' sample_issue))"
    by (simp_all add: sample_timeline)
  have s3: "Suc 2 = 3" and s2: "Suc 1 = 2" by simp_all
  show ?thesis
    using replay_role_classification [OF refl a n2, of "[''bob'']"]
      replay_role_classification [OF refl a n1, of "[''bob'']"]
    unfolding s3 s2
    by (simp add: sample_timeline)
qed

subsection \<open>Comments\<close>

text \<open>
  C3. No \<open>Commented\<close> event of the history has a body with the bot-alert signature.
  Dropping the comments that carry the signature from the raw input changes neither the
  history nor the label log, so such a comment reaches the result only through
  \<open>lastBotAlertTime\<close>; and that value is the largest creation instant of the comments
  carrying the signature, or \<open>null\<close> when there is none.
\<close>

theorem alert_comments_only_feed_lastBotAlert:
  "(\<forall>e \<in> set (fst (buildHistoryTimeline stale d)).
      etype e = Commented \<longrightarrow> \<not> str_includes (or_empty (data e)) BOT_ALERT_SIGNATURE)
   \<and> fst (buildHistoryTimeline stale
            (d\<lparr>comments := Some (filter (\<lambda>n. \<not> alert_node n) (nodes (comments d)))\<rparr>)) =
       fst (buildHistoryTimeline stale d)
   \<and> fst (snd (buildHistoryTimeline stale
            (d\<lparr>comments := Some (filter (\<lambda>n. \<not> alert_node n) (nodes (comments d)))\<rparr>))) =
       fst (snd (buildHistoryTimeline stale d))
   \<and> snd (snd (buildHistoryTimeline stale d)) =
       (if \<exists>c. Some c \<in> set (nodes (comments d)) \<and> bot_alert c
        then Some (Max {c_createdAt c |c. Some c \<in> set (nodes (comments d)) \<and> bot_alert c})
        else None)"
proof -
  let ?d' = "d\<lparr>comments := Some (filter (\<lambda>n. \<not> alert_node n) (nodes (comments d)))\<rparr>"
  have 1: "\<forall>e \<in> set (fst (buildHistoryTimeline stale d)).
      etype e = Commented \<longrightarrow> \<not> str_includes (or_empty (data e)) BOT_ALERT_SIGNATURE"
  proof (intro ballI impI)
    fix e assume e: "e \<in> set (fst (buildHistoryTimeline stale d))" and k: "etype e = Commented"
    have "e \<in> set (comment_events (nodes (comments d)))"
      using e k in_edit_events [of e] in_timeline_events [of e]
      by (auto simp: set_history created_event_def)
    then obtain c where "\<not> bot_alert c" "e = comment_event c"
      by (auto simp: in_comment_events)
    then show "\<not> str_includes (or_empty (data e)) BOT_ALERT_SIGNATURE"
      by (simp add: comment_event_def bot_alert_def or_empty_def)
  qed
  have "ingested ?d' = ingested d"
    by (simp add: ingested_def created_event_def nodes_def comment_events_without_alerts
        split: option.splits)
  then have 2: "fst (buildHistoryTimeline stale ?d') = fst (buildHistoryTimeline stale d)"
    by (simp add: buildHistoryTimeline_eq)
  have 3: "fst (snd (buildHistoryTimeline stale ?d')) = fst (snd (buildHistoryTimeline stale d))"
    by (simp add: buildHistoryTimeline_eq)
  have 4: "snd (snd (buildHistoryTimeline stale d)) =
       (if \<exists>c. Some c \<in> set (nodes (comments d)) \<and> bot_alert c
        then Some (Max {c_createdAt c |c. Some c \<in> set (nodes (comments d)) \<and> bot_alert c})
        else None)"
    by (simp only: buildHistoryTimeline_eq snd_conv latest_alert_times)
  show ?thesis using 1 2 3 4 by blast
qed

text \<open>C3 on the sample issue: the comment of \<open>bob\<close> without the signature is in the
  history, and of the two alerts, at 4000 and at 3200, the later one is returned.\<close>

theorem alert_comments_only_feed_lastBotAlert_witness:
  "\<lparr> etype = Commented, actor = Some ''bob'', time = 2500,
      data = Some ''Can you share the logs?'' \<rparr>
      \<in> set (fst (buildHistoryTimeline ''stale'' sample_issue))
   \<and> \<not> str_includes ''Can you share the logs?'' BOT_ALERT_SIGNATURE
   \<and> snd (snd (buildHistoryTimeline ''stale'' sample_issue)) = Some 4000
   \<and> Max {c_createdAt c |c. Some c \<in> set (nodes (comments sample_issue)) \<and> bot_alert c} = 4000"
  using alert_comments_only_feed_lastBotAlert [of "''stale''" sample_issue]
  by (auto simp: sample_timeline or_empty_def split: if_splits)

text \<open>
  C7. A comment of the raw input whose author is present (neither \<open>null\<close> nor empty), is
  not a bot and not the automation, and whose body is without the bot-alert signature,
  makes the comment loop push one \<open>Commented\<close> event, which is in the history; its
  timestamp is the comment's last-edited instant when there is one and its creation
  instant otherwise.
\<close>

theorem comment_event_time:
  assumes "Some c \<in> set (nodes (comments d))"
    and "c_author c = Some a" and "a \<noteq> []" and "\<not> endsWith a ''[bot]''" and "a \<noteq> BOT_NAME"
    and "\<not> str_includes (or_empty (c_body c)) BOT_ALERT_SIGNATURE"
  shows "comment_step (h, l) (Some c) =
           (h @ [\<lparr> etype = Commented, actor = Some a,
                    time = (case c_lastEditedAt c of Some t \<Rightarrow> t | None \<Rightarrow> c_createdAt c),
                    data = Some (or_empty (c_body c)) \<rparr>], l)
       \<and> \<lparr> etype = Commented, actor = Some a,
            time = (case c_lastEditedAt c of Some t \<Rightarrow> t | None \<Rightarrow> c_createdAt c),
            data = Some (or_empty (c_body c)) \<rparr>
          \<in> set (fst (buildHistoryTimeline stale d))"
proof -
  have hu: "human_actor (c_author c)"
    using assms(2-5) by (simp add: human_actorI)
  have na: "\<not> bot_alert c"
    using assms(6) by (simp add: bot_alert_def)
  have ev: "comment_event c =
      \<lparr> etype = Commented, actor = Some a,
        time = (case c_lastEditedAt c of Some t \<Rightarrow> t | None \<Rightarrow> c_createdAt c),
        data = Some (or_empty (c_body c)) \<rparr>"
    using assms(2) by (simp add: comment_event_def)
  have "comment_step (h, l) (Some c) = (h @ [comment_event c], l)"
    using hu na by (simp add: comment_step_simps)
  moreover have "comment_event c \<in> set (comment_events (nodes (comments d)))"
    using assms(1) hu na by (auto simp: in_comment_events)
  then have "comment_event c \<in> set (fst (buildHistoryTimeline stale d))"
    by (simp add: set_history)
  ultimately show ?thesis by (simp add: ev)
qed

text \<open>C7 on the sample issue: the comment \<open>bob\<close> posted at 2000 and edited at 2500 is an
  event at 2500; the comment \<open>carol\<close> posted at 2200 and never edited is an event at
  2200.\<close>

theorem comment_event_time_witness:
  "comment_step ([], None)
     (Some \<lparr> c_author = Some ''bob'', c_body = Some ''Can you share the logs?'',
             c_createdAt = 2000, c_lastEditedAt = Some 2500 \<rparr>) =
     ([\<lparr> etype = Commented, actor = Some ''bob'', time = 2500,
         data = Some ''Can you share the logs?'' \<rparr>], None)
   \<and> \<lparr> etype = Commented, actor = Some ''bob'', time = 2500,
        data = Some ''Can you share the logs?'' \<rparr>
      \<in> set (fst (buildHistoryTimeline ''stale'' sample_issue))
   \<and> \<lparr> etype = Commented, actor = Some ''carol'', time = 2200, data = Some '''' \<rparr>
      \<in> set (fst (buildHistoryTimeline ''stale'' sample_issue))"
proof -
  let ?c = "\<lparr> c_author = Some ''bob'', c_body = Some ''Can you share the logs?'',
             c_createdAt = 2000, c_lastEditedAt = Some 2500 \<rparr>"
  let ?k = "\<lparr> c_author = Some ''carol'', c_body = None,
             c_createdAt = 2200, c_lastEditedAt = None \<rparr>"
  have m: "Some ?c \<in> set (nodes (comments sample_issue))"
    by (simp add: sample_issue_def nodes_def)
  have mk: "Some ?k \<in> set (nodes (comments sample_issue))"
    by (simp add: sample_issue_def nodes_def)
  have b1: "\<not> endsWith ''bob'' ''[bot]''" by code_simp
  have b2: "''bob'' \<noteq> BOT_NAME" by code_simp
  have b3: "\<not> str_includes (or_empty (c_body ?c)) BOT_ALERT_SIGNATURE" by code_simp
  have k1: "\<not> endsWith ''carol'' ''[bot]''" by code_simp
  have k2: "''carol'' \<noteq> BOT_NAME" by code_simp
  have k3: "\<not> str_includes (or_empty (c_body ?k)) BOT_ALERT_SIGNATURE" by code_simp
  show ?thesis
    using comment_event_time [OF m _ _ b1 b2 b3, of "[]" None "''stale''"]
      comment_event_time [OF mk _ _ k1 k2 k3, of "[]" None "''stale''"]
    by (simp add: or_empty_def)
qed

section \<open>The Staleness Evaluator\<close>

text \<open>
  C2. For every replayed state, label log, bot-alert instant and current time, the
  verdict's \<open>maintainer_alert_needed\<close> is true exactly when the last action's role is
  \<open>Author\<close> or \<open>OtherUser\<close>, its type is \<open>EditedDescription\<close>, and there is no bot-alert
  instant strictly after the last activity time.
\<close>

theorem alert_needed_iff:
  "maintainer_alert_needed
     (evaluate diffDays cfg maintainers issueAuthor labelsList state labelEvents lastBotAlertTime currentTime)
   \<longleftrightarrow>
     (last_action_role state = Author \<or> last_action_role state = OtherUser)
     \<and> last_action_type state = EditedDescription
     \<and> \<not> (\<exists>t. lastBotAlertTime = Some t \<and> last_activity_time state < t)"
  by (cases lastBotAlertTime) (auto simp: evaluate_def Let_def)


section \<open>Failures of the two requests\<close>

lemma getIssueState_returns:
  "\<exists>r. fst (getIssueState diffDays cfg n collaborators posted now cache) = Inr r"
  by (simp add: getIssueState_def split: prod.splits sum.splits)

lemma fetchGraphqlData_failures:
  "fetchGraphqlData n (Inl e) = Inl e"
  "fetchGraphqlData n (Inr \<lparr> errors = Some (m # ms), issue = i \<rparr>) =
     Inl (RequestException (''GraphQL Error: '' @ m))"
  "fetchGraphqlData n (Inr \<lparr> errors = None, issue = None \<rparr>) =
     Inl (RequestException (''Issue #'' @ show_nat n @ '' not found.''))"
  "fetchGraphqlData n (Inr \<lparr> errors = Some [], issue = None \<rparr>) =
     Inl (RequestException (''Issue #'' @ show_nat n @ '' not found.''))"
  by (simp_all add: fetchGraphqlData_def nodes_def)

text \<open>
  C9. Once the maintainers are at hand, whatever the issue query throws (the transport's
  error, the \<open>RequestException\<close> of a GraphQL error or of a missing issue, or any other
  value), \<open>getIssueState\<close> returns the object \<open>{status: 'error', message}\<close> whose message
  is the exception's text after \<open>Network Error:\<close> or \<open>Analysis Error:\<close>. And on every
  input \<open>getIssueState\<close> returns: no exception leaves it.
\<close>

theorem failures_return_error_verdict:
  assumes "fst (getCachedMaintainers collaborators cache) = Inr maintainers"
    and "fetchGraphqlData item_number posted = Inl e"
  shows "fst (getIssueState diffDays cfg item_number collaborators posted now cache) =
           Inr (Failure \<lparr> status = ''error'',
                  message = (case e of
                               RequestException m \<Rightarrow> ''Network Error: '' @ m
                             | Error m \<Rightarrow> ''Analysis Error: '' @ m
                             | Thrown s \<Rightarrow> ''Analysis Error: '' @ s) \<rparr>)
       \<and> (\<exists>r. fst (getIssueState diffDays' cfg' n' collaborators' posted' now' cache') = Inr r)"
proof -
  obtain cache2 where "getCachedMaintainers collaborators cache = (Inr maintainers, cache2)"
    using assms(1) by (cases "getCachedMaintainers collaborators cache") simp
  then have "getIssueState_try diffDays cfg item_number collaborators posted now cache = (Inl e, cache2)"
    using assms(2) by (simp add: getIssueState_try_def)
  then have "fst (getIssueState diffDays cfg item_number collaborators posted now cache) =
             Inr (Failure (getIssueState_catch e))"
    by (simp add: getIssueState_def)
  then show ?thesis
    by (cases e) (simp_all add: getIssueState_catch_def errorResponse_def getIssueState_returns)
qed

text \<open>C9 for issue 42 when the query answers without an issue.\<close>

theorem failures_return_error_verdict_witness:
  "fst (getIssueState elapsed_days sample_settings 42 (Inr [''bob''])
          (Inr \<lparr> errors = None, issue = None \<rparr>) 5000 None) =
     Inr (Failure \<lparr> status = ''error'', message = ''Network Error: Issue #42 not found.'' \<rparr>)"
proof -
  have c: "fst (getCachedMaintainers (Inr [''bob'']) None) = Inr [''bob'']"
    by (simp add: getCachedMaintainers_def)
  have f: "fetchGraphqlData 42 (Inr \<lparr> errors = None, issue = None \<rparr>) =
           Inl (RequestException ''Issue #42 not found.'')"
    by code_simp
  show ?thesis
    using failures_return_error_verdict
        [OF c f, where diffDays = elapsed_days and cfg = sample_settings and now = 5000] by simp
qed

text \<open>
  C4, as the code has it. With an empty cache and a failing collaborators request,
  \<open>getCachedMaintainers\<close> throws \<open>Maintainer verification failed. Processing aborted.\<close>
  The call stands inside the \<open>try\<close> block of \<open>getIssueState\<close>, so the \<open>catch\<close> block
  turns the exception into an error object: \<open>getIssueState\<close> returns it, no verdict is
  computed for the issue, and the cache stays empty.
\<close>

theorem maintainer_fetch_failure_becomes_error_verdict:
  "fst (getCachedMaintainers (Inl e) None) =
     Inl (Error ''Maintainer verification failed. Processing aborted.'')
   \<and> getIssueState diffDays cfg item_number (Inl e) posted currentTime None =
     (Inr (Failure \<lparr> status = ''error'',
             message = ''Analysis Error: Maintainer verification failed. Processing aborted.'' \<rparr>),
      None)"
  by (simp add: getIssueState_def getIssueState_try_def getCachedMaintainers_def
      getIssueState_catch_def errorResponse_def)

text \<open>
  C4 as stated fails: the collaborators request is refused, the cache is empty and the
  query for issue 42 would have succeeded; \<open>getCachedMaintainers\<close> throws, and
  \<open>getIssueState\<close> returns an error object instead of letting the exception out.
\<close>

theorem maintainer_fetch_failure_counterexample:
  "fst (getCachedMaintainers (Inl (Error ''Request failed with status code 403'')) None) =
     Inl (Error ''Maintainer verification failed. Processing aborted.'')
   \<and> fst (getIssueState elapsed_days sample_settings 42
            (Inl (Error ''Request failed with status code 403''))
            (Inr \<lparr> errors = None, issue = Some sample_issue \<rparr>) 5000 None) =
     Inr (Failure \<lparr> status = ''error'',
            message = ''Analysis Error: Maintainer verification failed. Processing aborted.'' \<rparr>)"
  by (simp add: getIssueState_def getIssueState_try_def getCachedMaintainers_def
      getIssueState_catch_def errorResponse_def)

section \<open>The pipeline on the sample issue\<close>

text \<open>
  Eight days after the stale label was applied: the last action is the author's silent
  edit at 3000, the automation alerted at 4000, so no alert is needed; the issue is
  stale and the label is 8 days old.
\<close>

lemma sample_state:
  "replayHistoryToFindState (fst (buildHistoryTimeline ''stale'' sample_issue)) [''bob''] ''alice'' =
     \<lparr> last_action_role = Author, last_activity_time = 3000,
       last_action_type = EditedDescription, last_comment_text = None,
       last_actor_name = Some ''alice'' \<rparr>"
  by (simp add: sample_timeline replayHistoryToFindState_def replay_event_def role_of_def)

lemma sample_verdict:
  "getIssueState elapsed_days sample_settings 7 (Inr [''bob''])
     (Inr \<lparr> errors = None, issue = Some sample_issue \<rparr>) (3500 + 8 * 86400000) None =
   (Inr (Success
      \<lparr> v_status = ''success'', v_last_action_role = Author,
        v_last_action_type = EditedDescription, v_last_actor_name = Some ''alice'',
        maintainer_alert_needed = False, is_stale = True,
        days_since_activity = 691200500 / 86400000, days_since_stale_label = 8,
        v_last_comment_text = None, current_labels = [''stale'', ''bug''],
        stale_threshold_days = 7, close_threshold_days = 7,
        v_maintainers = [''bob''], issue_author = ''alice'' \<rparr>),
    Some [''bob''])"
proof -
  have a: "author sample_issue = Some ''alice''" "labels sample_issue = Some [''stale'', ''bug'']"
    by (simp_all add: sample_issue_def)
  have "analyse elapsed_days sample_settings [''bob''] sample_issue (3500 + 8 * 86400000) =
      \<lparr> v_status = ''success'', v_last_action_role = Author,
        v_last_action_type = EditedDescription, v_last_actor_name = Some ''alice'',
        maintainer_alert_needed = False, is_stale = True,
        days_since_activity = 691200500 / 86400000, days_since_stale_label = 8,
        v_last_comment_text = None, current_labels = [''stale'', ''bug''],
        stale_threshold_days = 7, close_threshold_days = 7,
        v_maintainers = [''bob''], issue_author = ''alice'' \<rparr>"
    using sample_state
    by (simp add: analyse_def a sample_settings_def sample_timeline evaluate_def nodes_def
        elapsed_days_def Let_def)
  then show ?thesis
    by (simp add: getIssueState_def getIssueState_try_def getCachedMaintainers_def
        fetchGraphqlData_def nodes_def)
qed

end
